theory Spec2Isabelle
  imports Main "HOL-Library.Sublist" "HOL-Library.Char_ord" "HOL-Library.List_Lexorder"
begin

section \<open>The compose topology (dockerwrapper.go)\<close>

text \<open>
  The structs of \<^verbatim>\<open>dockerwrapper.go\<close> become records with the fields of the source.
  A Go \<^verbatim>\<open>string\<close> is a byte sequence, modelled as a \<open>char list\<close>. A Go
  \<^verbatim>\<open>map[string]T\<close> is a finite partial function \<open>string \<rightharpoonup> T\<close>; a nil map and an
  empty map are both \<open>Map.empty\<close> (the code only reads, ranges over and replaces its maps,
  where Go treats the two alike). A slice is a list. The ports are Go \<^verbatim>\<open>int\<close>s; the code
  only prints them, so they are modelled as \<open>int\<close>.
\<close>

record PortMapping =
  HostPort :: int
  ContainerPort :: int
  Protocol :: string

record VolumeMapping =
  HostPath :: string
  ContainerPath :: string

record ResourceLimits =
  Memory :: string
  CPUShare :: string

record ServiceConfig =
  ImageName :: string
  ImageTag :: string
  ExposedPorts :: "PortMapping list"
  Environment :: "string \<rightharpoonup> string"
  Volumes :: "VolumeMapping list"
  DependsOn :: "string list"
  RestartPolicy :: string
  Resources :: ResourceLimits

record ComposeConfig =
  Services :: "string \<rightharpoonup> ServiceConfig"
  Network :: string
  ProjectName :: string
  EnvFile :: string

type_synonym error = string

subsection \<open>Ranging over a Go map\<close>

text \<open>
  \<^verbatim>\<open>for k, v := range m\<close> visits every key of \<open>m\<close> exactly once, in an order the Go
  runtime chooses afresh for each loop. The order is therefore an input of the model: every
  function that ranges over a map takes the key sequence of that loop, and \<open>range_keys m ks\<close>
  says that \<open>ks\<close> is a sequence the runtime can choose for \<open>m\<close>. \<open>len_map\<close> is Go's
  \<^verbatim>\<open>len(m)\<close>.
\<close>

definition range_keys :: "(string \<rightharpoonup> 'v) \<Rightarrow> string list \<Rightarrow> bool" where
  "range_keys m ks \<longleftrightarrow> distinct ks \<and> set ks = dom m"

definition len_map :: "(string \<rightharpoonup> 'v) \<Rightarrow> nat" where
  "len_map m = card (dom m)"

text \<open>
  One record holds the key sequences of all the \<^verbatim>\<open>range\<close> loops of the package:
  the services loop and the per-service environment loop of \<^verbatim>\<open>generateComposeContent\<close>,
  and the services loops of \<^verbatim>\<open>updateContainerIDs\<close>, \<^verbatim>\<open>Status\<close> and
  \<^verbatim>\<open>GetServices\<close>.
\<close>

record iteration =
  gen_services :: "string list"
  gen_environment :: "string \<Rightarrow> string list"
  refresh_services :: "string list"
  status_services :: "string list"
  list_services :: "string list"

section \<open>The serializer (compose\_generator.go)\<close>

subsection \<open>Formatting\<close>

text \<open>\<^verbatim>\<open>%d\<close> of \<^verbatim>\<open>fmt.Sprintf\<close>: the decimal digits, with a minus sign for a negative value.\<close>

fun digits :: "nat \<Rightarrow> string" where
  "digits n =
     (if n < 10 then [''0123456789'' ! n]
      else digits (n div 10) @ [''0123456789'' ! (n mod 10)])"

declare digits.simps [simp del]

definition fmt_d :: "int \<Rightarrow> string" where
  "fmt_d i = (if i < 0 then CHR ''-'' # digits (nat (- i)) else digits (nat i))"

subsection \<open>generateComposeContent\<close>

text \<open>
  The \<^verbatim>\<open>strings.Builder\<close> is the list of the strings written to it, in order; its
  \<^verbatim>\<open>String()\<close> is their concatenation. Each definition below gives the
  \<^verbatim>\<open>WriteString\<close> calls of one part of the function.
\<close>

definition portLine :: "PortMapping \<Rightarrow> string" where
  \<open>portLine port =
     ''      - "'' @ fmt_d (HostPort port) @ '':'' @ fmt_d (ContainerPort port)
       @ ''/'' @ Protocol port @ ''"\<newline>''\<close>

definition volumeLine :: "VolumeMapping \<Rightarrow> string" where
  "volumeLine volume =
     ''      - '' @ HostPath volume @ '':'' @ ContainerPath volume @ ''\<newline>''"

definition environmentLine :: "string \<Rightarrow> string \<Rightarrow> string" where
  "environmentLine key val = ''      - '' @ key @ ''='' @ val @ ''\<newline>''"

definition dependsLine :: "string \<Rightarrow> string" where
  "dependsLine dep = ''      - '' @ dep @ ''\<newline>''"

text \<open>
  The loop over the environment map (line 71). A \<^verbatim>\<open>range\<close> loop yields each key with
  its value, and never a key outside the map: a key of the sequence that the map does not
  hold writes nothing.
\<close>

definition environmentWrites :: "(string \<rightharpoonup> string) \<Rightarrow> string list \<Rightarrow> string list" where
  "environmentWrites env ks =
     concat (map (\<lambda>key. case env key of None \<Rightarrow> [] | Some val \<Rightarrow> [environmentLine key val]) ks)"

definition resourcesWrites :: "ResourceLimits \<Rightarrow> string list" where
  "resourcesWrites res =
     (if Memory res \<noteq> '''' \<or> CPUShare res \<noteq> '''' then
        [''    deploy:\<newline>'', ''      resources:\<newline>'', ''        limits:\<newline>'']
        @ (if Memory res \<noteq> '''' then [''          memory: '' @ Memory res @ ''\<newline>''] else [])
        @ (if CPUShare res \<noteq> '''' then [''          cpus: '' @ CPUShare res @ ''\<newline>''] else [])
      else [])"

text \<open>The body of the services loop (lines 44 to 95) for one service.\<close>

definition serviceWrites :: "string list \<Rightarrow> string \<Rightarrow> ServiceConfig \<Rightarrow> string list" where
  "serviceWrites envKeys serviceName serviceConfig =
     [''  '' @ serviceName @ '':\<newline>'',
      ''    image: '' @ ImageName serviceConfig @ '':'' @ ImageTag serviceConfig @ ''\<newline>'']
     @ (if RestartPolicy serviceConfig \<noteq> ''''
        then [''    restart: '' @ RestartPolicy serviceConfig @ ''\<newline>''] else [])
     @ (if length (ExposedPorts serviceConfig) > 0
        then ''    ports:\<newline>'' # map portLine (ExposedPorts serviceConfig) else [])
     @ (if length (Volumes serviceConfig) > 0
        then ''    volumes:\<newline>'' # map volumeLine (Volumes serviceConfig) else [])
     @ (if len_map (Environment serviceConfig) > 0
        then ''    environment:\<newline>'' # environmentWrites (Environment serviceConfig) envKeys
        else [])
     @ (if length (DependsOn serviceConfig) > 0
        then ''    depends_on:\<newline>'' # map dependsLine (DependsOn serviceConfig) else [])
     @ resourcesWrites (Resources serviceConfig)"

text \<open>
  The services loop (line 43): \<open>servicesLoop\<close> runs the body over a key sequence, and the
  function runs it over \<open>gen_services\<close>. The loop yields each name with its service, and
  never a name outside the map.
\<close>

definition servicesLoop ::
    "(string \<Rightarrow> string list) \<Rightarrow> ComposeConfig \<Rightarrow> string list \<Rightarrow> string list" where
  "servicesLoop envKeys config ks =
     concat (map (\<lambda>serviceName. case Services config serviceName of
                     None \<Rightarrow> []
                   | Some serviceConfig \<Rightarrow>
                       serviceWrites (envKeys serviceName) serviceName serviceConfig)
                 ks)"

definition servicesWrites :: "iteration \<Rightarrow> ComposeConfig \<Rightarrow> string list" where
  "servicesWrites it config = servicesLoop (gen_environment it) config (gen_services it)"

definition networkWrites :: "ComposeConfig \<Rightarrow> string list" where
  "networkWrites config =
     (if Network config \<noteq> ''''
      then [''\<newline>networks:\<newline>'', ''  '' @ Network config @ '':\<newline>'', ''    driver: bridge\<newline>'']
      else [])"

definition composeWrites :: "iteration \<Rightarrow> ComposeConfig \<Rightarrow> string list" where
  \<open>composeWrites it config =
     [''version: "3.4"\<newline>\<newline>'', ''services:\<newline>'']
     @ servicesWrites it config @ networkWrites config\<close>

text \<open>
  The function returns \<^verbatim>\<open>(string, error)\<close>; the model returns \<open>Inr\<close> of the text, or
  \<open>Inl\<close> of an error.
\<close>

definition generateComposeContent :: "iteration \<Rightarrow> ComposeConfig \<Rightarrow> error + string" where
  "generateComposeContent it config = Inr (concat (composeWrites it config))"

section \<open>The provider (DockerComposeProvider)\<close>

subsection \<open>The outside world\<close>

text \<open>
  The provider reaches the outside through three library calls: \<^verbatim>\<open>ioutil.TempDir\<close>,
  \<^verbatim>\<open>ioutil.WriteFile\<close> (always with mode 0644) and
  \<^verbatim>\<open>exec.CommandContext(ctx, name, args...).CombinedOutput()\<close>. Each one is a \<open>call\<close>.
  The world answers a call with a \<open>response\<close>: the bytes returned (the directory of
  \<^verbatim>\<open>TempDir\<close>, the combined output of a command) and the error, \<open>None\<close> for Go's
  \<^verbatim>\<open>nil\<close>. The answer may depend on every call made before, so a \<open>world\<close> is a function
  of the log of earlier calls and of the call; a cancelled context is one more reason for the
  world to answer with an error. Every call is taken to return. The lock of the provider is left
  out: the model is of one goroutine.
\<close>

datatype call =
    TempDir string string
  | WriteFile string string
  | Command string "string list"

record response =
  out :: string
  err :: "error option"

type_synonym world = "call list \<Rightarrow> call \<Rightarrow> response"

definition run :: "world \<Rightarrow> call \<Rightarrow> call list \<Rightarrow> response \<times> call list" where
  "run w c log = (w log c, log @ [c])"

subsection \<open>strings.TrimSpace\<close>

text \<open>
  \<^verbatim>\<open>strings.TrimSpace\<close> removes the leading and the trailing white space runes of a
  string. On the bytes of the string these are the UTF-8 encodings of the code points for
  which \<^verbatim>\<open>unicode.IsSpace\<close> holds: tab, line feed, vertical tab, form feed, carriage
  return, space, U+0085, U+00A0, U+1680, U+2000 to U+200A, U+2028, U+2029, U+202F, U+205F
  and U+3000.
\<close>

definition space_runes :: "string list" where
  "space_runes =
     [[CHR 0x09], [CHR 0x0A], [CHR 0x0B], [CHR 0x0C], [CHR 0x0D], [CHR 0x20],
      [CHR 0xC2, CHR 0x85], [CHR 0xC2, CHR 0xA0], [CHR 0xE1, CHR 0x9A, CHR 0x80],
      [CHR 0xE2, CHR 0x80, CHR 0x80], [CHR 0xE2, CHR 0x80, CHR 0x81],
      [CHR 0xE2, CHR 0x80, CHR 0x82], [CHR 0xE2, CHR 0x80, CHR 0x83],
      [CHR 0xE2, CHR 0x80, CHR 0x84], [CHR 0xE2, CHR 0x80, CHR 0x85],
      [CHR 0xE2, CHR 0x80, CHR 0x86], [CHR 0xE2, CHR 0x80, CHR 0x87],
      [CHR 0xE2, CHR 0x80, CHR 0x88], [CHR 0xE2, CHR 0x80, CHR 0x89],
      [CHR 0xE2, CHR 0x80, CHR 0x8A], [CHR 0xE2, CHR 0x80, CHR 0xA8],
      [CHR 0xE2, CHR 0x80, CHR 0xA9], [CHR 0xE2, CHR 0x80, CHR 0xAF],
      [CHR 0xE2, CHR 0x81, CHR 0x9F], [CHR 0xE3, CHR 0x80, CHR 0x80]]"

text \<open>\<open>trim_runes rs s\<close> removes from the front of \<open>s\<close> every leading rune of \<open>rs\<close>.\<close>

function trim_runes :: "string list \<Rightarrow> string \<Rightarrow> string" where
  "trim_runes rs s =
     (case find (\<lambda>r. r \<noteq> [] \<and> prefix r s) rs of
        None \<Rightarrow> s
      | Some r \<Rightarrow> trim_runes rs (drop (length r) s))"
  by pat_completeness auto
termination
proof (relation "measure (\<lambda>(rs, s). length s)")
  show "wf (measure (\<lambda>(rs :: string list, s :: string). length s))"
    by simp
next
  fix rs :: "string list" and s r :: string
  assume "find (\<lambda>r. r \<noteq> [] \<and> prefix r s) rs = Some r"
  then have "r \<noteq> []" and "prefix r s"
    by (auto simp: find_Some_iff)
  then have "length (drop (length r) s) < length s"
    by (cases r) (auto simp: prefix_def)
  then show "((rs, drop (length r) s), (rs, s)) \<in> measure (\<lambda>(rs, s). length s)"
    by simp
qed

declare trim_runes.simps [simp del]

definition TrimSpace :: "string \<Rightarrow> string" where
  "TrimSpace s = rev (trim_runes (map rev space_runes) (rev (trim_runes space_runes s)))"

subsection \<open>The provider and its state\<close>

record DockerComposeProvider =
  config :: ComposeConfig
  initialized :: bool
  containers :: "string \<rightharpoonup> string"

text \<open>
  A method runs on the provider and on the outside world; the state of a run is the provider
  with the log of the calls made so far, and a method returns its result with the new state.
  An \<^verbatim>\<open>error\<close> result is an \<open>error option\<close>, a result with an error is a sum.
\<close>

type_synonym state = "DockerComposeProvider \<times> call list"

definition NewDockerComposeProvider :: DockerComposeProvider where
  "NewDockerComposeProvider =
     \<lparr>config = \<lparr>Services = Map.empty, Network = '''', ProjectName = '''', EnvFile = ''''\<rparr>,
      initialized = False, containers = Map.empty\<rparr>"

definition Initialize :: "ComposeConfig \<Rightarrow> state \<Rightarrow> error option \<times> state" where
  "Initialize cfg st =
     (case st of (p, log) \<Rightarrow> (None, p\<lparr>config := cfg, initialized := True\<rparr>, log))"

subsection \<open>generateComposeFile\<close>

text \<open>
  \<^verbatim>\<open>filepath.Join\<close> of the directory that \<^verbatim>\<open>TempDir\<close> returned (a clean, non-empty
  path) and a file name puts a separator between the two.
\<close>

definition filepath_Join :: "string \<Rightarrow> string \<Rightarrow> string" where
  "filepath_Join dir name = dir @ ''/'' @ name"

definition generateComposeFile ::
    "world \<Rightarrow> iteration \<Rightarrow> ComposeConfig \<Rightarrow> call list \<Rightarrow> (error + string) \<times> call list" where
  "generateComposeFile w it cfg log =
     (let (r1, log1) = run w (TempDir '''' ''docker-compose-'') log in
      case err r1 of
        Some e \<Rightarrow> (Inl (''failed to create temp directory: '' @ e), log1)
      | None \<Rightarrow>
          (case generateComposeContent it cfg of
             Inl e \<Rightarrow> (Inl (''failed to generate compose content: '' @ e), log1)
           | Inr content \<Rightarrow>
               let composeFilePath = filepath_Join (out r1) ''docker-compose.yml'';
                   (r2, log2) = run w (WriteFile composeFilePath content) log1
               in case err r2 of
                    Some e \<Rightarrow> (Inl (''failed to write compose file: '' @ e), log2)
                  | None \<Rightarrow> (Inr composeFilePath, log2)))"

subsection \<open>updateContainerIDs\<close>

definition psCall :: "ComposeConfig \<Rightarrow> string \<Rightarrow> call" where
  "psCall cfg service =
     Command ''docker-compose'' [''-p'', ProjectName cfg, ''ps'', ''-q'', service]"

fun refreshLoop ::
    "world \<Rightarrow> ComposeConfig \<Rightarrow> string list \<Rightarrow> (string \<rightharpoonup> string) \<times> call list
       \<Rightarrow> (string \<rightharpoonup> string) \<times> call list" where
  "refreshLoop w cfg [] acc = acc"
| "refreshLoop w cfg (service # rest) acc =
     (case acc of (cache, log) \<Rightarrow>
        let (r, log') = run w (psCall cfg service) log in
        if err r \<noteq> None then refreshLoop w cfg rest (cache, log')
        else
          let containerID = TrimSpace (out r) in
          if containerID \<noteq> '''' then refreshLoop w cfg rest (cache(service \<mapsto> containerID), log')
          else refreshLoop w cfg rest (cache, log'))"

definition updateContainerIDs :: "world \<Rightarrow> iteration \<Rightarrow> state \<Rightarrow> error option \<times> state" where
  "updateContainerIDs w it st =
     (case st of (p, log) \<Rightarrow>
        let cfg = config p;
            (cache, log') = refreshLoop w cfg (refresh_services it) (Map.empty, log)
        in (None, p\<lparr>containers := cache\<rparr>, log'))"

subsection \<open>Start and Stop\<close>

definition upCall :: "ComposeConfig \<Rightarrow> string \<Rightarrow> call" where
  "upCall cfg composeFile =
     Command ''docker-compose'' [''-p'', ProjectName cfg, ''-f'', composeFile, ''up'', ''-d'']"

definition downCall :: "ComposeConfig \<Rightarrow> string \<Rightarrow> call" where
  "downCall cfg composeFile =
     Command ''docker-compose'' [''-p'', ProjectName cfg, ''-f'', composeFile, ''down'']"

definition Start :: "world \<Rightarrow> iteration \<Rightarrow> state \<Rightarrow> error option \<times> state" where
  "Start w it st =
     (case st of (p, log) \<Rightarrow>
        if \<not> initialized p then (Some ''provider not initialized'', p, log)
        else
          let cfg = config p in
          case generateComposeFile w it cfg log of
            (Inl e, log1) \<Rightarrow> (Some (''failed to generate compose file: '' @ e), p, log1)
          | (Inr composeFile, log1) \<Rightarrow>
              let (r, log2) = run w (upCall cfg composeFile) log1 in
              case err r of
                Some e \<Rightarrow>
                  (Some (''failed to start containers: '' @ out r @ '', error: '' @ e), p, log2)
              | None \<Rightarrow> updateContainerIDs w it (p, log2))"

definition Stop :: "world \<Rightarrow> iteration \<Rightarrow> state \<Rightarrow> error option \<times> state" where
  "Stop w it st =
     (case st of (p, log) \<Rightarrow>
        if \<not> initialized p then (Some ''provider not initialized'', p, log)
        else
          let cfg = config p in
          case generateComposeFile w it cfg log of
            (Inl e, log1) \<Rightarrow> (Some (''failed to generate compose file: '' @ e), p, log1)
          | (Inr composeFile, log1) \<Rightarrow>
              let (r, log2) = run w (downCall cfg composeFile) log1 in
              case err r of
                Some e \<Rightarrow>
                  (Some (''failed to stop containers: '' @ out r @ '', error: '' @ e), p, log2)
              | None \<Rightarrow> (None, p\<lparr>containers := Map.empty\<rparr>, log2))"

subsection \<open>Status\<close>

definition inspectCall :: "string \<Rightarrow> call" where
  "inspectCall containerID =
     Command ''docker'' [''inspect'', ''--format'', ''{{.State.Status}}'', containerID]"

fun statusLoop ::
    "world \<Rightarrow> (string \<rightharpoonup> string) \<Rightarrow> string list \<Rightarrow> (string \<rightharpoonup> string) \<times> call list
       \<Rightarrow> (string \<rightharpoonup> string) \<times> call list" where
  "statusLoop w cache [] acc = acc"
| "statusLoop w cache (service # rest) acc =
     (case acc of (statuses, log) \<Rightarrow>
        case cache service of
          None \<Rightarrow> statusLoop w cache rest (statuses(service \<mapsto> ''not_found''), log)
        | Some containerID \<Rightarrow>
            let (r, log') = run w (inspectCall containerID) log in
            if err r \<noteq> None then statusLoop w cache rest (statuses(service \<mapsto> ''error''), log')
            else
              let status = TrimSpace (out r) in
              statusLoop w cache rest (statuses(service \<mapsto> status), log'))"

definition Status ::
    "world \<Rightarrow> iteration \<Rightarrow> state \<Rightarrow> (error + (string \<rightharpoonup> string)) \<times> state" where
  "Status w it st =
     (case st of (p, log) \<Rightarrow>
        if \<not> initialized p then (Inl ''provider not initialized'', p, log)
        else
          case updateContainerIDs w it (p, log) of
            (Some e, st') \<Rightarrow> (Inl e, st')
          | (None, p', log') \<Rightarrow>
              let (statuses, log'') =
                    statusLoop w (containers p') (status_services it) (Map.empty, log')
              in (Inr statuses, p', log''))"

subsection \<open>GetLogs, GetContainerID and GetServices\<close>

text \<open>The \<^verbatim>\<open>io.Reader\<close> that \<^verbatim>\<open>GetLogs\<close> returns is given by the bytes it reads.\<close>

definition GetLogs :: "world \<Rightarrow> iteration \<Rightarrow> string \<Rightarrow> state \<Rightarrow> (error + string) \<times> state" where
  "GetLogs w it serviceName st =
     (case st of (p, log) \<Rightarrow>
        if \<not> initialized p then (Inl ''provider not initialized'', p, log)
        else if Services (config p) serviceName = None
        then (Inl (''service '' @ serviceName @ '' not found''), p, log)
        else
          case updateContainerIDs w it (p, log) of
            (Some e, st') \<Rightarrow> (Inl e, st')
          | (None, p', log') \<Rightarrow>
              (case containers p' serviceName of
                 None \<Rightarrow> (Inl (''container for service '' @ serviceName @ '' not found''), p', log')
               | Some containerID \<Rightarrow>
                   let (r, log'') = run w (Command ''docker'' [''logs'', containerID]) log' in
                   case err r of
                     Some e \<Rightarrow> (Inl (''failed to get logs: '' @ e), p', log'')
                   | None \<Rightarrow> (Inr (out r), p', log'')))"

text \<open>Reading a Go map at a key it does not hold gives the zero value, the empty string.\<close>

definition GetContainerID :: "string \<Rightarrow> state \<Rightarrow> string \<times> state" where
  "GetContainerID serviceName st =
     (case st of (p, log) \<Rightarrow>
        (case containers p serviceName of None \<Rightarrow> '''' | Some containerID \<Rightarrow> containerID, p, log))"

text \<open>
  \<^verbatim>\<open>GetServices\<close> returns a slice and nothing else. A caller can tell the \<^verbatim>\<open>nil\<close>
  slice from an empty one, so the result keeps them apart.
\<close>

datatype 'a slice = NilSlice | Slice "'a list"

definition GetServices :: "iteration \<Rightarrow> state \<Rightarrow> string slice \<times> state" where
  "GetServices it st =
     (case st of (p, log) \<Rightarrow>
        if \<not> initialized p then (NilSlice, p, log)
        else (Slice (list_services it), p, log))"

section \<open>Vocabulary of the properties\<close>

text \<open>
  The key sequences of a run of \<^verbatim>\<open>generateComposeContent\<close> on \<open>cfg\<close>: the runtime
  ranges over the services, and for each service over its environment.
\<close>

definition ranges_of :: "ComposeConfig \<Rightarrow> iteration \<Rightarrow> bool" where
  "ranges_of cfg it \<longleftrightarrow>
     range_keys (Services cfg) (gen_services it) \<and>
     (\<forall>name sc. Services cfg name = Some sc \<longrightarrow>
        range_keys (Environment sc) (gen_environment it name))"



text \<open>The \<^verbatim>\<open>docker inspect\<close> calls that the loop of \<^verbatim>\<open>Status\<close> makes over the services \<open>ks\<close>.\<close>

definition inspectCalls :: "(string \<rightharpoonup> string) \<Rightarrow> string list \<Rightarrow> call list" where
  "inspectCalls cache ks =
     concat (map (\<lambda>service. case cache service of
                    None \<Rightarrow> []
                  | Some containerID \<Rightarrow> [inspectCall containerID]) ks)"

section \<open>A topology, a world and two providers to run the model on\<close>

definition plain_service :: "string \<Rightarrow> string \<Rightarrow> string \<Rightarrow> ServiceConfig" where
  "plain_service img tag restart =
     \<lparr>ImageName = img, ImageTag = tag, ExposedPorts = [], Environment = Map.empty,
      Volumes = [], DependsOn = [], RestartPolicy = restart,
      Resources = \<lparr>Memory = '''', CPUShare = ''''\<rparr>\<rparr>"

definition web_service :: ServiceConfig where
  "web_service =
     \<lparr>ImageName = ''nginx'', ImageTag = ''stable'',
      ExposedPorts = [\<lparr>HostPort = 8080, ContainerPort = 80, Protocol = ''tcp''\<rparr>],
      Environment = [''DEBUG'' \<mapsto> ''0'', ''ENV'' \<mapsto> ''production''],
      Volumes = [], DependsOn = [''db''], RestartPolicy = '''',
      Resources = \<lparr>Memory = '''', CPUShare = ''''\<rparr>\<rparr>"

definition shop_config :: ComposeConfig where
  "shop_config =
     \<lparr>Services = [''cache'' \<mapsto> plain_service ''redis'' ''7'' '''',
                  ''db'' \<mapsto> plain_service ''postgres'' ''13'' ''always'',
                  ''web'' \<mapsto> web_service],
      Network = ''appnet'', ProjectName = ''demo'', EnvFile = ''''\<rparr>"

definition api_config :: ComposeConfig where
  "api_config =
     \<lparr>Services = [''api'' \<mapsto> plain_service ''api'' ''latest'' ''''],
      Network = '''', ProjectName = ''demo'', EnvFile = ''''\<rparr>"

text \<open>Three runs on \<open>shop_config\<close>: two in the order of the bytes, one in another order.\<close>

definition sorted_iteration :: iteration where
  "sorted_iteration =
     \<lparr>gen_services = [''cache'', ''db'', ''web''],
      gen_environment = (\<lambda>name. if name = ''web'' then [''DEBUG'', ''ENV''] else []),
      refresh_services = [''cache'', ''db'', ''web''],
      status_services = [''cache'', ''db'', ''web''],
      list_services = [''cache'', ''db'', ''web'']\<rparr>"


definition other_iteration :: iteration where
  "other_iteration =
     \<lparr>gen_services = [''web'', ''cache'', ''db''],
      gen_environment = (\<lambda>name. if name = ''web'' then [''ENV'', ''DEBUG''] else []),
      refresh_services = [''web'', ''cache'', ''db''],
      status_services = [''web'', ''cache'', ''db''],
      list_services = [''web'', ''cache'', ''db'']\<rparr>"

text \<open>
  A world where staging and \<^verbatim>\<open>up\<close> and \<^verbatim>\<open>down\<close> succeed, \<^verbatim>\<open>web\<close> and \<^verbatim>\<open>db\<close> have
  a container, the listing of \<^verbatim>\<open>cache\<close> fails, and the inspection of the container of
  \<^verbatim>\<open>db\<close> fails.
\<close>

definition demo_world :: world where
  "demo_world log c =
     (if c = TempDir '''' ''docker-compose-''
        then \<lparr>out = ''/tmp/docker-compose-1'', err = None\<rparr>
      else if c = psCall shop_config ''web''
        then \<lparr>out = ''c0ffee\<newline>'', err = None\<rparr>
      else if c = psCall shop_config ''db''
        then \<lparr>out = ''decade\<newline>'', err = None\<rparr>
      else if c = psCall shop_config ''cache''
        then \<lparr>out = ''no such service: cache\<newline>'', err = Some ''exit status 1''\<rparr>
      else if c = inspectCall ''c0ffee''
        then \<lparr>out = ''running\<newline>'', err = None\<rparr>
      else if c = inspectCall ''decade''
        then \<lparr>out = ''Error: No such object: decade\<newline>'', err = Some ''exit status 1''\<rparr>
      else \<lparr>out = '''', err = None\<rparr>)"

text \<open>The provider after \<^verbatim>\<open>Initialize\<close> with \<open>shop_config\<close> and \<^verbatim>\<open>Start\<close> in that world.\<close>

definition running_provider :: DockerComposeProvider where
  "running_provider =
     \<lparr>config = shop_config, initialized = True,
      containers = [''db'' \<mapsto> ''decade'', ''web'' \<mapsto> ''c0ffee'']\<rparr>"

section \<open>Properties of the serializer\<close>

subsection \<open>Evaluating the serializer\<close>

lemmas serializer_defs =
  generateComposeContent_def composeWrites_def servicesWrites_def servicesLoop_def
  serviceWrites_def networkWrites_def resourcesWrites_def environmentWrites_def
  environmentLine_def portLine_def volumeLine_def dependsLine_def fmt_d_def digits.simps
  len_map_def

lemma shop_text_sorted:
  \<open>generateComposeContent sorted_iteration shop_config =
     Inr (''version: "3.4"\<newline>\<newline>services:\<newline>''
       @ ''  cache:\<newline>    image: redis:7\<newline>''
       @ ''  db:\<newline>    image: postgres:13\<newline>    restart: always\<newline>''
       @ ''  web:\<newline>    image: nginx:stable\<newline>    ports:\<newline>      - "8080:80/tcp"\<newline>''
       @ ''    environment:\<newline>      - DEBUG=0\<newline>      - ENV=production\<newline>''
       @ ''    depends_on:\<newline>      - db\<newline>''
       @ ''\<newline>networks:\<newline>  appnet:\<newline>    driver: bridge\<newline>'')\<close>
  by (simp add: serializer_defs shop_config_def sorted_iteration_def web_service_def
        plain_service_def)

lemma shop_text_other:
  \<open>generateComposeContent other_iteration shop_config =
     Inr (''version: "3.4"\<newline>\<newline>services:\<newline>''
       @ ''  web:\<newline>    image: nginx:stable\<newline>    ports:\<newline>      - "8080:80/tcp"\<newline>''
       @ ''    environment:\<newline>      - ENV=production\<newline>      - DEBUG=0\<newline>''
       @ ''    depends_on:\<newline>      - db\<newline>''
       @ ''  cache:\<newline>    image: redis:7\<newline>''
       @ ''  db:\<newline>    image: postgres:13\<newline>    restart: always\<newline>''
       @ ''\<newline>networks:\<newline>  appnet:\<newline>    driver: bridge\<newline>'')\<close>
  by (simp add: serializer_defs shop_config_def other_iteration_def web_service_def
        plain_service_def)

lemma ranges_of_sorted: "ranges_of shop_config sorted_iteration"
  by (auto simp: ranges_of_def range_keys_def shop_config_def sorted_iteration_def
        web_service_def plain_service_def split: if_splits)


lemma ranges_of_other: "ranges_of shop_config other_iteration"
  by (auto simp: ranges_of_def range_keys_def shop_config_def other_iteration_def
        web_service_def plain_service_def split: if_splits)




subsection \<open>Determinism under a fixed order\<close>





text \<open>
  The order is needed: the code imposes none, and two runs on \<open>shop_config\<close> that range in
  different orders return different texts.
\<close>

theorem generateComposeContent_order_dependent:
  "ranges_of shop_config sorted_iteration \<and> ranges_of shop_config other_iteration \<and>
   generateComposeContent sorted_iteration shop_config
     \<noteq> generateComposeContent other_iteration shop_config"
  using ranges_of_sorted ranges_of_other
  by (simp add: shop_text_sorted shop_text_other)

subsection \<open>A service with no optional part\<close>




subsection \<open>The networks block\<close>






subsection \<open>Totality\<close>

text \<open>
  Claim C5. For every topology, and whatever order the runtime ranges in,
  \<^verbatim>\<open>generateComposeContent\<close> returns a text and no error. Empty fields give a sparser
  text: the witness is a service with an empty image name and tag.
\<close>

theorem generateComposeContent_total:
  "\<exists>content. generateComposeContent it cfg = Inr content"
  by (simp add: generateComposeContent_def)

theorem generateComposeContent_total_witness:
  \<open>generateComposeContent sorted_iteration
      \<lparr>Services = [''db'' \<mapsto> plain_service '''' '''' ''''], Network = '''',
       ProjectName = '''', EnvFile = ''''\<rparr>
    = Inr ''version: "3.4"\<newline>\<newline>services:\<newline>  db:\<newline>    image: :\<newline>''\<close>
  using generateComposeContent_total[of sorted_iteration
      "\<lparr>Services = [''db'' \<mapsto> plain_service '''' '''' ''''], Network = '''',
        ProjectName = '''', EnvFile = ''''\<rparr>"]
  by (simp add: serializer_defs sorted_iteration_def plain_service_def)

section \<open>Properties of the provider\<close>

subsection \<open>Evaluating the provider\<close>

lemmas TrimSpace_eval = TrimSpace_def trim_runes.simps space_runes_def

lemma TrimSpace_examples:
  "TrimSpace ''c0ffee\<newline>'' = ''c0ffee''"
  "TrimSpace ''decade\<newline>'' = ''decade''"
  "TrimSpace ''running\<newline>'' = ''running''"
  "TrimSpace '' \<newline>'' = ''''"
  by (simp_all add: TrimSpace_eval)

lemma refresh_running:
  "updateContainerIDs demo_world sorted_iteration (running_provider, []) =
     (None, running_provider,
      [psCall shop_config ''cache'', psCall shop_config ''db'', psCall shop_config ''web''])"
  by (simp add: updateContainerIDs_def sorted_iteration_def running_provider_def run_def
        demo_world_def psCall_def inspectCall_def TrimSpace_examples)

lemma stop_running:
  "Stop demo_world sorted_iteration (running_provider, []) =
     (None, running_provider\<lparr>containers := Map.empty\<rparr>,
      [TempDir '''' ''docker-compose-'',
       WriteFile ''/tmp/docker-compose-1/docker-compose.yml''
         (concat (composeWrites sorted_iteration shop_config))]
      @ [downCall shop_config ''/tmp/docker-compose-1/docker-compose.yml''])"
  by (simp add: Stop_def generateComposeFile_def generateComposeContent_def run_def Let_def
        filepath_Join_def demo_world_def running_provider_def downCall_def psCall_def
        inspectCall_def)

text \<open>
  \<open>running_provider\<close> is the provider that \<^verbatim>\<open>NewDockerComposeProvider\<close>,
  \<^verbatim>\<open>Initialize\<close> and \<^verbatim>\<open>Start\<close> produce in \<open>demo_world\<close>.
\<close>

lemma start_new:
  "Start demo_world sorted_iteration
     (snd (Initialize shop_config (NewDockerComposeProvider, []))) =
     (None, running_provider,
      [TempDir '''' ''docker-compose-'',
       WriteFile ''/tmp/docker-compose-1/docker-compose.yml''
         (concat (composeWrites sorted_iteration shop_config)),
       upCall shop_config ''/tmp/docker-compose-1/docker-compose.yml'',
       psCall shop_config ''cache'', psCall shop_config ''db'', psCall shop_config ''web''])"
  by (simp add: Start_def Initialize_def NewDockerComposeProvider_def generateComposeFile_def
        generateComposeContent_def run_def Let_def filepath_Join_def updateContainerIDs_def
        sorted_iteration_def running_provider_def demo_world_def upCall_def psCall_def
        inspectCall_def TrimSpace_examples)

subsection \<open>Before Initialize\<close>

text \<open>
  Claim C2, as the code has it. On a provider that is not initialized, \<^verbatim>\<open>Start\<close> and
  \<^verbatim>\<open>Stop\<close> return the error ``provider not initialized'', \<^verbatim>\<open>Status\<close> and
  \<^verbatim>\<open>GetLogs\<close> return it with no value, and \<^verbatim>\<open>GetServices\<close>, whose only result is a
  slice, returns \<^verbatim>\<open>nil\<close>. None of the five makes a call to the outside, and the provider
  is as before.
\<close>

theorem uninitialized_operations:
  "\<not> initialized p \<Longrightarrow>
   Start w it (p, log) = (Some ''provider not initialized'', p, log) \<and>
   Stop w it (p, log) = (Some ''provider not initialized'', p, log) \<and>
   Status w it (p, log) = (Inl ''provider not initialized'', p, log) \<and>
   GetLogs w it serviceName (p, log) = (Inl ''provider not initialized'', p, log) \<and>
   GetServices it (p, log) = (NilSlice, p, log)"
  by (simp add: Start_def Stop_def Status_def GetLogs_def GetServices_def)

theorem uninitialized_operations_witness:
  "\<not> initialized NewDockerComposeProvider \<and>
   Start demo_world sorted_iteration (NewDockerComposeProvider, []) =
     (Some ''provider not initialized'', NewDockerComposeProvider, []) \<and>
   Stop demo_world sorted_iteration (NewDockerComposeProvider, []) =
     (Some ''provider not initialized'', NewDockerComposeProvider, []) \<and>
   Status demo_world sorted_iteration (NewDockerComposeProvider, []) =
     (Inl ''provider not initialized'', NewDockerComposeProvider, []) \<and>
   GetLogs demo_world sorted_iteration ''web'' (NewDockerComposeProvider, []) =
     (Inl ''provider not initialized'', NewDockerComposeProvider, []) \<and>
   GetServices sorted_iteration (NewDockerComposeProvider, []) =
     (NilSlice, NewDockerComposeProvider, [])"
  using uninitialized_operations[of NewDockerComposeProvider demo_world sorted_iteration "[]"
      "''web''"]
  by (simp add: NewDockerComposeProvider_def)

text \<open>
  Claim C2, as the spec states it, asks \<^verbatim>\<open>GetServices\<close> for a ``not initialized'' error too.
  On the provider that \<^verbatim>\<open>NewDockerComposeProvider\<close> returns, \<^verbatim>\<open>GetServices\<close> returns the
  \<^verbatim>\<open>nil\<close> slice, not an error.
\<close>

theorem GetServices_uninitialized_returns_nil:
  "\<not> initialized NewDockerComposeProvider \<and>
   fst (GetServices sorted_iteration (NewDockerComposeProvider, [])) = NilSlice"
  by (simp add: NewDockerComposeProvider_def GetServices_def)

subsection \<open>The refresh of the cache never fails\<close>

lemma updateContainerIDs_result:
  "\<exists>cache log'. updateContainerIDs w it (p, log) = (None, p\<lparr>containers := cache\<rparr>, log')"
  by (auto simp: updateContainerIDs_def Let_def split: prod.splits)

text \<open>
  Claim C10. For every world (so for every context and every outcome of the listings), every
  topology and every order of the loop, \<^verbatim>\<open>updateContainerIDs\<close> returns \<^verbatim>\<open>nil\<close>. Hence
  the branch of \<^verbatim>\<open>Status\<close> that passes on an error of the refresh is never taken: on an
  initialized provider \<^verbatim>\<open>Status\<close> returns a map of statuses.
\<close>

theorem updateContainerIDs_never_fails:
  "fst (updateContainerIDs w it (p, log)) = None \<and>
   (initialized p \<longrightarrow> (\<exists>statuses st'. Status w it (p, log) = (Inr statuses, st')))"
  using updateContainerIDs_result[of w it p log]
  by (auto simp: Status_def split: prod.splits)

theorem updateContainerIDs_never_fails_witness:
  "fst (updateContainerIDs demo_world sorted_iteration (running_provider, [])) = None \<and>
   initialized running_provider \<and>
   (\<exists>statuses st'.
      Status demo_world sorted_iteration (running_provider, []) = (Inr statuses, st'))"
  using updateContainerIDs_never_fails[of demo_world sorted_iteration running_provider "[]"]
  by (simp add: running_provider_def)

subsection \<open>Status\<close>

lemma statusLoop_append:
  "statusLoop w cache (xs @ ys) acc = statusLoop w cache ys (statusLoop w cache xs acc)"
  by (induction xs arbitrary: acc)
     (auto simp: Let_def run_def split: option.splits prod.splits)

lemma statusLoop_log:
  "snd (statusLoop w cache ks (statuses, log)) = log @ inspectCalls cache ks"
  by (induction ks arbitrary: statuses log)
     (auto simp: Let_def run_def inspectCalls_def split: option.splits)

lemma statusLoop_other:
  "service \<notin> set ks \<Longrightarrow>
     fst (statusLoop w cache ks (statuses, log)) service = statuses service"
  by (induction ks arbitrary: statuses log)
     (auto simp: Let_def run_def split: option.splits)

lemma statusLoop_dom:
  "dom (fst (statusLoop w cache ks (statuses, log))) = dom statuses \<union> set ks"
  by (induction ks arbitrary: statuses log)
     (auto simp: Let_def run_def split: option.splits)

text \<open>
  The status of a service that the loop visits once after \<open>pre\<close>: it depends on the cache
  entry of the service and on the answer to its own inspection, made after the inspections of
  the cached services of \<open>pre\<close>.
\<close>

lemma statusLoop_at:
  assumes "service \<notin> set post"
  shows "fst (statusLoop w cache (pre @ service # post) (statuses, log)) service =
     Some (case cache service of
             None \<Rightarrow> ''not_found''
           | Some containerID \<Rightarrow>
               let r = w (log @ inspectCalls cache pre) (inspectCall containerID)
               in if err r \<noteq> None then ''error'' else TrimSpace (out r))"
proof -
  obtain st1 where pre:
    "statusLoop w cache pre (statuses, log) = (st1, log @ inspectCalls cache pre)"
    using statusLoop_log[of w cache pre statuses log]
    by (cases "statusLoop w cache pre (statuses, log)") auto
  show ?thesis
    using assms
    by (simp add: statusLoop_append pre Let_def run_def statusLoop_other
          split: option.splits)
qed

text \<open>
  Claim C6. On an initialized provider, with \<open>p'\<close> and \<open>log1\<close> the provider and the log
  after the refresh, \<^verbatim>\<open>Status\<close> returns a map and no error. The map has an entry for every
  declared service and for nothing else, and the loop visits every declared service. For each
  service the loop visits (after the services \<open>pre\<close>): if the refreshed cache has no
  identifier for it, its status is ``not\_found''; if its inspection returns an error, its
  status is ``error''; otherwise its status is the trimmed output of its inspection. So the
  status of a service is fixed by its own cache entry and the answer to its own inspection,
  whatever the inspections of the other services return.
\<close>

theorem Status_partial_failure:
  assumes "initialized p"
    and "range_keys (Services (config p)) (status_services it)"
    and "updateContainerIDs w it (p, log) = (e, p', log1)"
  shows "\<exists>statuses log2.
           Status w it (p, log) = (Inr statuses, p', log2) \<and>
           dom statuses = dom (Services (config p)) \<and>
           (\<forall>service. Services (config p) service \<noteq> None \<longrightarrow>
              (\<exists>pre post. status_services it = pre @ service # post)) \<and>
           (\<forall>pre service post. status_services it = pre @ service # post \<longrightarrow>
              (containers p' service = None \<longrightarrow> statuses service = Some ''not_found'') \<and>
              (\<forall>containerID. containers p' service = Some containerID \<longrightarrow>
                 (err (w (log1 @ inspectCalls (containers p') pre) (inspectCall containerID))
                    \<noteq> None
                    \<longrightarrow> statuses service = Some ''error'') \<and>
                 (err (w (log1 @ inspectCalls (containers p') pre) (inspectCall containerID))
                    = None
                    \<longrightarrow> statuses service =
                          Some (TrimSpace (out (w (log1 @ inspectCalls (containers p') pre)
                                                  (inspectCall containerID)))))))"
proof -
  have e: "e = None"
    using assms(3) updateContainerIDs_result[of w it p log] by auto
  obtain statuses log2 where loop:
    "statusLoop w (containers p') (status_services it) (Map.empty, log1) = (statuses, log2)"
    by (cases "statusLoop w (containers p') (status_services it) (Map.empty, log1)") auto
  have st: "Status w it (p, log) = (Inr statuses, p', log2)"
    using assms(1,3) e loop by (simp add: Status_def)
  have dom: "dom statuses = dom (Services (config p))"
    using statusLoop_dom[of w "containers p'" "status_services it" Map.empty log1] loop
      assms(2)
    by (simp add: range_keys_def)
  have at: "statuses service =
     Some (case containers p' service of
             None \<Rightarrow> ''not_found''
           | Some containerID \<Rightarrow>
               let r = w (log1 @ inspectCalls (containers p') pre) (inspectCall containerID)
               in if err r \<noteq> None then ''error'' else TrimSpace (out r))"
    if "status_services it = pre @ service # post" for pre service post
  proof -
    have "distinct (pre @ service # post)"
      using assms(2) that by (simp add: range_keys_def)
    then have "service \<notin> set post"
      by simp
    from statusLoop_at[OF this, of w "containers p'" pre Map.empty log1] loop that
    show ?thesis
      by simp
  qed
  have visited: "\<exists>pre post. status_services it = pre @ service # post"
    if "Services (config p) service \<noteq> None" for service
  proof -
    have "service \<in> set (status_services it)"
      using assms(2) that by (auto simp: range_keys_def)
    then show ?thesis
      by (rule split_list)
  qed
  show ?thesis
    using st dom at visited by (auto simp: Let_def)
qed

theorem Status_partial_failure_witness:
  "initialized running_provider \<and>
   range_keys (Services (config running_provider)) (status_services sorted_iteration) \<and>
   updateContainerIDs demo_world sorted_iteration (running_provider, []) =
     (None, running_provider,
      [psCall shop_config ''cache'', psCall shop_config ''db'', psCall shop_config ''web'']) \<and>
   (\<exists>statuses log2.
      Status demo_world sorted_iteration (running_provider, []) =
        (Inr statuses, running_provider, log2) \<and>
      statuses ''cache'' = Some ''not_found'' \<and>
      statuses ''db'' = Some ''error'' \<and>
      statuses ''web'' = Some ''running'')"
proof -
  have 1: "initialized running_provider"
    by (simp add: running_provider_def)
  have 2: "range_keys (Services (config running_provider)) (status_services sorted_iteration)"
    by (auto simp: range_keys_def running_provider_def shop_config_def sorted_iteration_def
          split: if_splits)
  have ks: "status_services sorted_iteration = [] @ ''cache'' # [''db'', ''web'']"
    "status_services sorted_iteration = [''cache''] @ ''db'' # [''web'']"
    "status_services sorted_iteration = [''cache'', ''db''] @ ''web'' # []"
    by (simp_all add: sorted_iteration_def)
  have cache: "containers running_provider ''cache'' = None"
    "containers running_provider ''db'' = Some ''decade''"
    "containers running_provider ''web'' = Some ''c0ffee''"
    by (simp_all add: running_provider_def)
  have w: "err (demo_world l (inspectCall ''decade'')) \<noteq> None"
    "err (demo_world l (inspectCall ''c0ffee'')) = None"
    "out (demo_world l (inspectCall ''c0ffee'')) = ''running\<newline>''" for l
    by (simp_all add: demo_world_def inspectCall_def psCall_def)
  from Status_partial_failure[OF 1 2 refresh_running] obtain statuses log2 where
    st: "Status demo_world sorted_iteration (running_provider, []) =
           (Inr statuses, running_provider, log2)"
    and each: "\<And>pre service post.
        status_services sorted_iteration = pre @ service # post \<Longrightarrow>
        (containers running_provider service = None
           \<longrightarrow> statuses service = Some ''not_found'') \<and>
        (\<forall>containerID. containers running_provider service = Some containerID \<longrightarrow>
           (err (demo_world ([psCall shop_config ''cache'', psCall shop_config ''db'',
                              psCall shop_config ''web'']
                             @ inspectCalls (containers running_provider) pre)
                   (inspectCall containerID)) \<noteq> None
              \<longrightarrow> statuses service = Some ''error'') \<and>
           (err (demo_world ([psCall shop_config ''cache'', psCall shop_config ''db'',
                              psCall shop_config ''web'']
                             @ inspectCalls (containers running_provider) pre)
                   (inspectCall containerID)) = None
              \<longrightarrow> statuses service =
                    Some (TrimSpace (out (demo_world
                       ([psCall shop_config ''cache'', psCall shop_config ''db'',
                         psCall shop_config ''web'']
                        @ inspectCalls (containers running_provider) pre)
                       (inspectCall containerID))))))"
    by blast
  have "statuses ''cache'' = Some ''not_found''"
    using each[OF ks(1)] cache(1) by simp
  moreover have "statuses ''db'' = Some ''error''"
    using each[OF ks(2)] cache(2) w(1) by simp
  moreover have "statuses ''web'' = Some ''running''"
    using each[OF ks(3)] cache(3) w(2,3) by (simp add: TrimSpace_examples)
  ultimately show ?thesis
    using 1 2 st refresh_running by blast
qed

subsection \<open>Stop\<close>

text \<open>
  Claim C7. Take a \<^verbatim>\<open>Stop\<close> on an initialized provider whose last call to the outside is
  the \<^verbatim>\<open>down\<close> invocation, and let that invocation succeed. Then \<^verbatim>\<open>Stop\<close> returns
  \<^verbatim>\<open>nil\<close>, the cache is empty afterwards, and \<^verbatim>\<open>GetContainerID\<close> returns the empty
  string for every service name.
\<close>

theorem Stop_clears_cache:
  assumes "initialized p"
    and "Stop w it (p, log) = (e, p', log')"
    and "log' = l @ [downCall (config p) composeFile]"
    and "err (w l (downCall (config p) composeFile)) = None"
  shows "e = None \<and> containers p' = Map.empty \<and>
         (\<forall>serviceName. fst (GetContainerID serviceName (p', log')) = '''')"
  using assms
  by (auto simp: Stop_def generateComposeFile_def generateComposeContent_def run_def Let_def
        downCall_def GetContainerID_def
        split: option.splits sum.splits prod.splits if_splits)

theorem Stop_clears_cache_witness:
  "initialized running_provider \<and>
   fst (GetContainerID ''web'' (running_provider, [])) = ''c0ffee'' \<and>
   Stop demo_world sorted_iteration (running_provider, []) =
     (None, running_provider\<lparr>containers := Map.empty\<rparr>,
      [TempDir '''' ''docker-compose-'',
       WriteFile ''/tmp/docker-compose-1/docker-compose.yml''
         (concat (composeWrites sorted_iteration shop_config))]
      @ [downCall (config running_provider) ''/tmp/docker-compose-1/docker-compose.yml'']) \<and>
   err (demo_world
          [TempDir '''' ''docker-compose-'',
           WriteFile ''/tmp/docker-compose-1/docker-compose.yml''
             (concat (composeWrites sorted_iteration shop_config))]
          (downCall (config running_provider) ''/tmp/docker-compose-1/docker-compose.yml''))
     = None \<and>
   fst (GetContainerID ''web''
          (running_provider\<lparr>containers := Map.empty\<rparr>,
           [TempDir '''' ''docker-compose-'',
            WriteFile ''/tmp/docker-compose-1/docker-compose.yml''
              (concat (composeWrites sorted_iteration shop_config))]
           @ [downCall (config running_provider) ''/tmp/docker-compose-1/docker-compose.yml'']))
     = ''''"
proof -
  have 1: "initialized running_provider"
    and c: "fst (GetContainerID ''web'' (running_provider, [])) = ''c0ffee''"
    and cfg: "config running_provider = shop_config"
    by (simp_all add: running_provider_def GetContainerID_def)
  have 2: "Stop demo_world sorted_iteration (running_provider, []) =
     (None, running_provider\<lparr>containers := Map.empty\<rparr>,
      [TempDir '''' ''docker-compose-'',
       WriteFile ''/tmp/docker-compose-1/docker-compose.yml''
         (concat (composeWrites sorted_iteration shop_config))]
      @ [downCall (config running_provider) ''/tmp/docker-compose-1/docker-compose.yml''])"
    using stop_running by (simp add: cfg)
  have 4: "err (demo_world
          [TempDir '''' ''docker-compose-'',
           WriteFile ''/tmp/docker-compose-1/docker-compose.yml''
             (concat (composeWrites sorted_iteration shop_config))]
          (downCall (config running_provider) ''/tmp/docker-compose-1/docker-compose.yml''))
     = None"
    by (simp add: demo_world_def downCall_def psCall_def inspectCall_def)
  from Stop_clears_cache[OF 1 2 refl 4] 1 c 2 4
  show ?thesis
    by simp
qed

subsection \<open>GetContainerID and Initialize\<close>

text \<open>
  Claim C8. In every state of the provider, initialized or not, and for every service name
  with no identifier in the cache, declared or not, \<^verbatim>\<open>GetContainerID\<close> returns the empty
  string. Its only result is a string, so it signals no error; it makes no call to the outside
  and leaves the provider as it is.
\<close>

theorem GetContainerID_absent:
  "containers p serviceName = None \<Longrightarrow>
     GetContainerID serviceName (p, log) = ('''', p, log)"
  by (simp add: GetContainerID_def)

theorem GetContainerID_absent_witness:
  "containers NewDockerComposeProvider ''web'' = None \<and>
   GetContainerID ''web'' (NewDockerComposeProvider, []) =
     ('''', NewDockerComposeProvider, []) \<and>
   containers running_provider ''cache'' = None \<and>
   GetContainerID ''cache'' (running_provider, []) = ('''', running_provider, [])"
  using GetContainerID_absent[of NewDockerComposeProvider "''web''" "[]"]
    GetContainerID_absent[of running_provider "''cache''" "[]"]
  by (simp add: NewDockerComposeProvider_def running_provider_def)

text \<open>
  Claim C9. \<^verbatim>\<open>Initialize\<close> returns \<^verbatim>\<open>nil\<close>, stores the topology and sets the flag, and
  changes nothing else: it makes no call to the outside and the cache is the one from before,
  so \<^verbatim>\<open>GetContainerID\<close> answers after a second \<^verbatim>\<open>Initialize\<close> as it did before it,
  also for a service that the new topology does not declare.
\<close>

theorem Initialize_keeps_cache:
  "Initialize cfg (p, log) = (None, p\<lparr>config := cfg, initialized := True\<rparr>, log) \<and>
   containers (fst (snd (Initialize cfg (p, log)))) = containers p \<and>
   fst (GetContainerID serviceName (snd (Initialize cfg (p, log)))) =
     fst (GetContainerID serviceName (p, log))"
  by (simp add: Initialize_def GetContainerID_def)

theorem Initialize_keeps_cache_witness:
  "Services api_config ''web'' = None \<and>
   config running_provider \<noteq> api_config \<and>
   fst (GetContainerID ''web'' (running_provider, [])) = ''c0ffee'' \<and>
   config (fst (snd (Initialize api_config (running_provider, [])))) = api_config \<and>
   fst (GetContainerID ''web'' (snd (Initialize api_config (running_provider, [])))) =
     ''c0ffee''"
  using Initialize_keeps_cache[of api_config running_provider "[]" "''web''"]
  by (simp add: GetContainerID_def running_provider_def api_config_def shop_config_def)

end
